theory Spec2Isabelle
  imports Complex_Main
begin

section \<open>Values that cross the tool boundary\<close>

text \<open>
  Tool arguments and tool results are typed \<open>any\<close> in the source and are written as
  object literals. They are embedded as JSON values; an object is the list of its
  key/value pairs in the order the literal gives them. Numbers are rationals: the
  comparisons and sums of the source are exact on them (the rounding of IEEE doubles
  and the value NaN are outside this model).
\<close>

datatype json =
    JNull
  | JBool bool
  | JNum rat
  | JStr string
  | JArr "json list"
  | JObj "(string \<times> json) list"

text \<open>Property access \<open>o.k\<close> on an object; \<open>None\<close> is JavaScript's \<open>undefined\<close>.\<close>

fun get :: "json \<Rightarrow> string \<Rightarrow> json option" where
  "get (JObj kvs) k = map_of kvs k"
| "get _ k = None"

text \<open>JavaScript truthiness, as used by \<open>!x\<close>, \<open>x || y\<close> and \<open>x ? a : b\<close>.\<close>

fun truthy :: "json \<Rightarrow> bool" where
  "truthy JNull = False"
| "truthy (JBool b) = b"
| "truthy (JNum n) = (n \<noteq> 0)"
| "truthy (JStr s) = (s \<noteq> [])"
| "truthy (JArr _) = True"
| "truthy (JObj _) = True"

text \<open>Truthiness of an optional string (\<open>undefined\<close> and the empty string are falsy).\<close>

fun given :: "string option \<Rightarrow> bool" where
  "given None = False"
| "given (Some s) = (s \<noteq> [])"

text \<open>The decimal rendering of an integer inside a template literal.\<close>

definition digit_char :: "nat \<Rightarrow> char" where
  "digit_char n = ''0123456789'' ! n"

fun digits_of :: "nat \<Rightarrow> string \<Rightarrow> string" where
  "digits_of n acc =
     (if n < 10 then digit_char n # acc
      else digits_of (n div 10) (digit_char (n mod 10) # acc))"

declare digits_of.simps [simp del]

definition show_int :: "int \<Rightarrow> string" where
  "show_int i = (if i < 0 then CHR ''-'' # digits_of (nat (- i)) [] else digits_of (nat i) [])"

section \<open>The database rows the tools read and write\<close>

text \<open>
  The \<open>Event\<close> row. Dates are milliseconds since the epoch, prices are the decimal
  columns read through \<open>Number(...)\<close>, the four counters are integer columns.
\<close>

record event =
  ev_id :: string
  ev_name :: string
  ev_date :: int
  location :: string
  address :: "string option"
  gaPriceOnline :: rat
  gaPriceGate :: rat
  vipPriceOnline :: rat
  vipPriceGate :: rat
  gaCapacity :: int
  vipCapacity :: int
  gaSold :: int
  vipSold :: int
  active :: bool

datatype ticketType = GA | VIP

fun ticketType_str :: "ticketType \<Rightarrow> string" where
  "ticketType_str GA = ''GA''"
| "ticketType_str VIP = ''VIP''"

record ticketPurchase =
  tp_eventId :: string
  tp_ticketType :: ticketType
  tp_quantity :: int
  tp_unitPrice :: rat
  tp_totalPrice :: rat
  tp_customerName :: string
  tp_customerEmail :: string
  tp_customerPhone :: string
  tp_stripePaymentId :: string
  tp_paymentStatus :: string
  tp_confirmationCode :: string
  tp_callLogId :: "string option"

record businessConfig =
  kbMinConfidence :: "rat option"
  lowConfidenceAction :: "string option"

record callLog =
  cl_id :: string
  cl_callSid :: string

record sponsorInquiry =
  si_contactName :: string
  si_companyName :: "string option"
  si_phone :: string
  si_email :: "string option"
  si_interestedTier :: "string option"
  si_notes :: "string option"

record citation =
  ci_callLogId :: "string option"
  ci_callSid :: "string option"
  ci_question :: string
  ci_language :: string
  ci_sources :: "json list"

text \<open>The tables behind the \<open>prisma\<close> client, each a list of rows in insertion order.\<close>

record db =
  events :: "event list"
  ticketPurchases :: "ticketPurchase list"
  businessConfigs :: "businessConfig list"
  callLogs :: "callLog list"
  intentLogs :: "(string \<times> json) list"
  sponsorInquiries :: "sponsorInquiry list"
  citationsLogs :: "citation list"

text \<open>\<open>prisma.event.findUnique({ where: { id } })\<close>.\<close>

definition findUnique_event :: "db \<Rightarrow> string \<Rightarrow> event option" where
  "findUnique_event d i = find (\<lambda>e. ev_id e = i) (events d)"

text \<open>
  The filter \<open>{ active: true, date: { gte: new Date() } }\<close> and the ordering
  \<open>orderBy: { date: 'asc' }\<close>; \<open>now\<close> is the value of \<open>new Date()\<close>. Rows with equal
  dates keep their table order.
\<close>

definition upcoming :: "int \<Rightarrow> event \<Rightarrow> bool" where
  "upcoming now e = (active e \<and> now \<le> ev_date e)"

definition findFirst_upcoming :: "db \<Rightarrow> int \<Rightarrow> event option" where
  "findFirst_upcoming d now =
     (case sort_key ev_date (filter (upcoming now) (events d)) of
        [] \<Rightarrow> None
      | e # _ \<Rightarrow> Some e)"

text \<open>\<open>logIntent\<close>: one row in the intent log (a failing write is swallowed by its \<open>try\<close>).\<close>

definition logIntent :: "string \<Rightarrow> json \<Rightarrow> db \<Rightarrow> db" where
  "logIntent intent meta d = d\<lparr>intentLogs := intentLogs d @ [(intent, meta)]\<rparr>"

section \<open>Price and availability lookup\<close>

record ticketPrices =
  tpr_event :: event
  gaOnline :: rat
  gaGate :: rat
  vipOnline :: rat
  vipGate :: rat
  gaAvailable :: int
  vipAvailable :: int

text \<open>\<open>getTicketPrices\<close> of \<open>services/payments.ts\<close>.\<close>

definition getTicketPrices :: "db \<Rightarrow> int \<Rightarrow> string option \<Rightarrow> ticketPrices option" where
  "getTicketPrices d now eventId =
     (case (case eventId of
              None \<Rightarrow> findFirst_upcoming d now
            | Some i \<Rightarrow> if i \<noteq> [] then findUnique_event d i else findFirst_upcoming d now) of
        None \<Rightarrow> None
      | Some e \<Rightarrow> Some \<lparr>
          tpr_event = e,
          gaOnline = gaPriceOnline e,
          gaGate = gaPriceGate e,
          vipOnline = vipPriceOnline e,
          vipGate = vipPriceGate e,
          gaAvailable = gaCapacity e - gaSold e,
          vipAvailable = vipCapacity e - vipSold e \<rparr>)"

text \<open>
  \<open>tools.getTicketPricing\<close>. \<open>fmt\<close> stands for \<open>toLocaleDateString('en-US', {weekday,
  month, day})\<close>; the argument object is reduced to its \<open>eventId\<close> field.
\<close>

definition eventId_meta :: "string option \<Rightarrow> json" where
  "eventId_meta eventId = JObj (case eventId of None \<Rightarrow> [] | Some i \<Rightarrow> [(''eventId'', JStr i)])"

definition getTicketPricing :: "(int \<Rightarrow> string) \<Rightarrow> int \<Rightarrow> string option \<Rightarrow> db \<Rightarrow> json \<times> db" where
  "getTicketPricing fmt now eventId d =
     (let d1 = logIntent ''getTicketPricing'' (eventId_meta eventId) d in
      case getTicketPrices d1 now eventId of
        None \<Rightarrow> (JObj [(''ok'', JBool False),
                        (''message'', JStr ''No events available for ticket purchase'')], d1)
      | Some prices \<Rightarrow>
          (JObj [(''ok'', JBool True),
                 (''eventName'', JStr (ev_name (tpr_event prices))),
                 (''eventDate'', JStr (fmt (ev_date (tpr_event prices)))),
                 (''generalAdmission'', JObj [
                    (''online'', JNum (gaOnline prices)),
                    (''atGate'', JNum (gaGate prices)),
                    (''available'', JNum (of_int (gaAvailable prices))),
                    (''includes'', JStr ''Event entry, tasting spoon, voting card, and program'')]),
                 (''vip'', JObj [
                    (''online'', JNum (vipOnline prices)),
                    (''atGate'', JNum (vipGate prices)),
                    (''available'', JNum (of_int (vipAvailable prices))),
                    (''includes'', JStr ''Early entry (30 min before GA), commemorative soup bowl, grocery bag, soup tray, spoon, voting card, and program'')])],
           d1))"

text \<open>The availability a pricing result reports for one tier.\<close>

definition reported_available :: "json \<Rightarrow> string \<Rightarrow> json option" where
  "reported_available r tier = (case get r tier of None \<Rightarrow> None | Some t \<Rightarrow> get t ''available'')"

section \<open>Ticket payments\<close>

text \<open>
  A promise of a library call (Stripe, Twilio, Slack) either resolves with a value or
  rejects with an \<open>Error\<close> object; \<open>Rejected m\<close> carries that error's \<open>message\<close>.
\<close>

datatype 'a settled = Resolved 'a | Rejected string

record PaymentResult =
  success :: bool
  confirmationCode :: "string option"
  error :: "string option"
  clientSecret :: "string option"
  paymentIntentId :: "string option"

definition failed :: "string \<Rightarrow> PaymentResult" where
  "failed msg = \<lparr> success = False, confirmationCode = None, error = Some msg,
                   clientSecret = None, paymentIntentId = None \<rparr>"

text \<open>\<open>error.message || fallback\<close> in a \<open>catch\<close> block.\<close>

definition message_or :: "string \<Rightarrow> string \<Rightarrow> string" where
  "message_or m fallback = (if m \<noteq> [] then m else fallback)"

text \<open>What \<open>stripe.paymentIntents.create\<close> resolves with, as far as the code reads it.\<close>

record paymentIntent =
  pi_id :: string
  pi_status :: string
  pi_client_secret :: "string option"

definition upper_char :: "char \<Rightarrow> char" where
  "upper_char c = (let n = (of_char c :: nat) in if 97 \<le> n \<and> n \<le> 122 then char_of (n - 32) else c)"

definition lower_char :: "char \<Rightarrow> char" where
  "lower_char c = (let n = (of_char c :: nat) in if 65 \<le> n \<and> n \<le> 90 then char_of (n + 32) else c)"

text \<open>\<open>`SCO-${uuidv4().slice(0, 8).toUpperCase()}`\<close>; \<open>uuid\<close> is the value of \<open>uuidv4()\<close>.\<close>

definition make_confirmationCode :: "string \<Rightarrow> string" where
  "make_confirmationCode uuid = ''SCO-'' @ map upper_char (take 8 uuid)"

definition sold_of :: "ticketType \<Rightarrow> event \<Rightarrow> int" where
  "sold_of t e = (case t of VIP \<Rightarrow> vipSold e | GA \<Rightarrow> gaSold e)"

definition capacity_of :: "ticketType \<Rightarrow> event \<Rightarrow> int" where
  "capacity_of t e = (case t of VIP \<Rightarrow> vipCapacity e | GA \<Rightarrow> gaCapacity e)"

definition unitPrice_of :: "ticketType \<Rightarrow> event \<Rightarrow> rat" where
  "unitPrice_of t e = (case t of VIP \<Rightarrow> vipPriceOnline e | GA \<Rightarrow> gaPriceOnline e)"

text \<open>
  \<open>prisma.event.update({ where: { id }, data: { vipSold | gaSold: { increment: q } } })\<close>:
  the row with that id gets its counter raised by \<open>q\<close>, with no condition on the result.
\<close>

fun increment_sold :: "string \<Rightarrow> ticketType \<Rightarrow> int \<Rightarrow> event list \<Rightarrow> event list" where
  "increment_sold i t q [] = []"
| "increment_sold i t q (e # es) =
     (if ev_id e = i
      then (case t of VIP \<Rightarrow> e\<lparr>vipSold := vipSold e + q\<rparr> | GA \<Rightarrow> e\<lparr>gaSold := gaSold e + q\<rparr>) # es
      else e # increment_sold i t q es)"

record purchaseRequest =
  pr_eventId :: string
  pr_ticketType :: ticketType
  pr_quantity :: int
  pr_customerName :: string
  pr_customerEmail :: string
  pr_customerPhone :: string
  pr_callLogId :: "string option"

definition purchase_row :: "purchaseRequest \<Rightarrow> event \<Rightarrow> string \<Rightarrow> string \<Rightarrow> string \<Rightarrow> ticketPurchase" where
  "purchase_row r e payId status code = \<lparr>
     tp_eventId = pr_eventId r,
     tp_ticketType = pr_ticketType r,
     tp_quantity = pr_quantity r,
     tp_unitPrice = unitPrice_of (pr_ticketType r) e,
     tp_totalPrice = unitPrice_of (pr_ticketType r) e * of_int (pr_quantity r),
     tp_customerName = pr_customerName r,
     tp_customerEmail = pr_customerEmail r,
     tp_customerPhone = pr_customerPhone r,
     tp_stripePaymentId = payId,
     tp_paymentStatus = status,
     tp_confirmationCode = code,
     tp_callLogId = (if given (pr_callLogId r) then pr_callLogId r else None) \<rparr>"

text \<open>
  \<open>createTicketPaymentIntent\<close>: the web checkout path. It checks the event's availability
  before it asks Stripe for a payment intent, and stores a pending purchase. \<open>intent\<close> is
  what \<open>stripe.paymentIntents.create\<close> settles to.
\<close>

definition createTicketPaymentIntent ::
    "string \<Rightarrow> paymentIntent settled \<Rightarrow> purchaseRequest \<Rightarrow> db \<Rightarrow> PaymentResult \<times> db" where
  "createTicketPaymentIntent uuid intent r d =
     (case findUnique_event d (pr_eventId r) of
        None \<Rightarrow> (failed ''Event not found'', d)
      | Some e \<Rightarrow>
          if \<not> active e then (failed ''Event is not available for ticket sales'', d)
          else
            let sold = sold_of (pr_ticketType r) e;
                capacity = capacity_of (pr_ticketType r) e
            in if sold + pr_quantity r > capacity
               then (failed (''Only '' @ show_int (capacity - sold) @ '' ''
                               @ ticketType_str (pr_ticketType r) @ '' tickets remaining''), d)
               else
                 let code = make_confirmationCode uuid in
                 (case intent of
                    Rejected m \<Rightarrow> (failed (message_or m ''Payment processing failed''), d)
                  | Resolved p \<Rightarrow>
                      (\<lparr> success = True, confirmationCode = Some code, error = None,
                         clientSecret = (if given (pi_client_secret p) then pi_client_secret p else None),
                         paymentIntentId = Some (pi_id p) \<rparr>,
                       d\<lparr>ticketPurchases := ticketPurchases d @ [purchase_row r e (pi_id p) ''pending'' code]\<rparr>)))"

text \<open>
  \<open>processVoicePayment\<close>: the path the voice tool takes. \<open>method\<close> and \<open>intent\<close> are what
  \<open>stripe.paymentMethods.create\<close> and \<open>stripe.paymentIntents.create\<close> (with
  \<open>confirm: true\<close>) settle to; the card fields only travel to Stripe. Between reading
  the event and charging the card the function looks at no counter.
\<close>

definition processVoicePayment ::
    "string \<Rightarrow> string settled \<Rightarrow> paymentIntent settled \<Rightarrow> purchaseRequest \<Rightarrow> db \<Rightarrow> PaymentResult \<times> db" where
  "processVoicePayment uuid method intent r d =
     (case findUnique_event d (pr_eventId r) of
        None \<Rightarrow> (failed ''Event not found'', d)
      | Some e \<Rightarrow>
          let code = make_confirmationCode uuid in
          (case method of
             Rejected m \<Rightarrow> (failed (message_or m ''Payment declined''), d)
           | Resolved pm \<Rightarrow>
               (case intent of
                  Rejected m \<Rightarrow> (failed (message_or m ''Payment declined''), d)
                | Resolved p \<Rightarrow>
                    if pi_status p = ''succeeded''
                    then
                      (\<lparr> success = True, confirmationCode = Some code, error = None,
                         clientSecret = None, paymentIntentId = None \<rparr>,
                       d\<lparr> ticketPurchases :=
                            ticketPurchases d @ [purchase_row r e (pi_id p) ''completed'' code],
                          events := increment_sold (pr_eventId r) (pr_ticketType r) (pr_quantity r) (events d) \<rparr>)
                    else (failed ''Payment requires additional action'', d))))"

text \<open>A sold-out event (500 of 500 general-admission tickets sold) and a request for one more.\<close>

definition soldout_event :: event where
  "soldout_event = \<lparr> ev_id = ''ev1'', ev_name = ''Harrisburg Soup Cookoff'', ev_date = 2000,
     location = ''Harrisburg'', address = None,
     gaPriceOnline = 15, gaPriceGate = 20, vipPriceOnline = 35, vipPriceGate = 40,
     gaCapacity = 500, vipCapacity = 100, gaSold = 500, vipSold = 0, active = True \<rparr>"

definition empty_db :: db where
  "empty_db = \<lparr> events = [], ticketPurchases = [], businessConfigs = [], callLogs = [],
     intentLogs = [], sponsorInquiries = [], citationsLogs = [] \<rparr>"

definition soldout_db :: db where
  "soldout_db = empty_db\<lparr>events := [soldout_event]\<rparr>"

definition one_more_GA :: purchaseRequest where
  "one_more_GA = \<lparr> pr_eventId = ''ev1'', pr_ticketType = GA, pr_quantity = 1,
     pr_customerName = ''Pat'', pr_customerEmail = ''pat@example.org'',
     pr_customerPhone = ''7175550100'', pr_callLogId = None \<rparr>"

definition charged :: "paymentIntent settled" where
  "charged = Resolved \<lparr> pi_id = ''pi_1'', pi_status = ''succeeded'', pi_client_secret = None \<rparr>"

section \<open>Confidence-gated knowledge answering\<close>

text \<open>
  What \<open>askKB\<close> resolves with, as far as \<open>answerQuestion\<close> reads it: the passage text
  \<open>res.context\<close> and the ranked list \<open>res.sources\<close>, each entry an object whose
  \<open>score\<close> the gate reads.
\<close>

record kbResult =
  kb_context :: string
  kb_sources :: "json list"

text \<open>
  \<open>res.sources[0]?.score ?? 0\<close>: the score as it stands, with 0 in place of a missing
  candidate and of a missing or null score.
\<close>

definition topConfidence_of :: "kbResult \<Rightarrow> json" where
  "topConfidence_of res =
     (case kb_sources res of
        [] \<Rightarrow> JNum 0
      | s # _ \<Rightarrow> (case get s ''score'' of
                    None \<Rightarrow> JNum 0
                  | Some JNull \<Rightarrow> JNum 0
                  | Some v \<Rightarrow> v))"

text \<open>
  The comparison \<open>topConfidence < minConfidence\<close>. A number is compared as it is and a
  boolean as 0 or 1; \<open>toNumber\<close> stands for the conversion JavaScript applies to a
  string, an array or an object, \<open>None\<close> being \<open>NaN\<close>, which is below nothing.
\<close>

definition below :: "(json \<Rightarrow> rat option) \<Rightarrow> json \<Rightarrow> rat \<Rightarrow> bool" where
  "below toNumber v th =
     (case v of
        JNum x \<Rightarrow> x < th
      | JBool b \<Rightarrow> (if b then 1 else 0) < th
      | JNull \<Rightarrow> 0 < th
      | _ \<Rightarrow> (case toNumber v of None \<Rightarrow> False | Some x \<Rightarrow> x < th))"

text \<open>\<open>prisma.businessConfig.findFirst()\<close> and the two defaults applied to it.\<close>

definition findFirst_businessConfig :: "db \<Rightarrow> businessConfig option" where
  "findFirst_businessConfig d = (case businessConfigs d of [] \<Rightarrow> None | c # _ \<Rightarrow> Some c)"

definition minConfidence_of :: "businessConfig option \<Rightarrow> rat" where
  "minConfidence_of cfg =
     (case cfg of
        None \<Rightarrow> 55 / 100
      | Some c \<Rightarrow> (case kbMinConfidence c of None \<Rightarrow> 55 / 100 | Some v \<Rightarrow> v))"

definition lowConfidenceAction_of :: "businessConfig option \<Rightarrow> string" where
  "lowConfidenceAction_of cfg =
     (case cfg of
        None \<Rightarrow> ''ask_clarify''
      | Some c \<Rightarrow> (case lowConfidenceAction c of None \<Rightarrow> ''ask_clarify'' | Some a \<Rightarrow> a))"

text \<open>\<open>tools.getPolicy\<close>.\<close>

definition getPolicy :: "db \<Rightarrow> json" where
  "getPolicy d =
     (let cfg = findFirst_businessConfig d in
      JObj [(''kbMinConfidence'', JNum (minConfidence_of cfg)),
            (''lowConfidenceAction'', JStr (lowConfidenceAction_of cfg))])"

text \<open>\<open>(language || 'en').substring(0, 5).toLowerCase()\<close>.\<close>

definition resolve_lang :: "string option \<Rightarrow> string" where
  "resolve_lang language =
     map lower_char (take 5 (case language of None \<Rightarrow> ''en'' | Some l \<Rightarrow> if l \<noteq> [] then l else ''en''))"

record questionArgs =
  question :: string
  language :: "string option"
  callSid :: "string option"

text \<open>The citation row written for every question (a failing write is swallowed).\<close>

definition log_citation :: "questionArgs \<Rightarrow> string \<Rightarrow> kbResult \<Rightarrow> db \<Rightarrow> db" where
  "log_citation args lang res d =
     (let call = (if given (callSid args)
                  then find (\<lambda>c. Some (cl_callSid c) = callSid args) (callLogs d)
                  else None)
      in d\<lparr>citationsLogs := citationsLogs d @ [\<lparr>
            ci_callLogId = (case call of None \<Rightarrow> None
                            | Some c \<Rightarrow> if cl_id c \<noteq> [] then Some (cl_id c) else None),
            ci_callSid = (if given (callSid args) then callSid args else None),
            ci_question = question args,
            ci_language = lang,
            ci_sources = kb_sources res \<rparr>]\<rparr>)"

text \<open>
  \<open>tools.answerQuestion\<close>. \<open>askKB\<close> is the retrieval collaborator, applied to the question
  and the resolved language; \<open>toNumber\<close> is the conversion the comparison falls back on.
\<close>

definition answerQuestion ::
    "(json \<Rightarrow> rat option) \<Rightarrow> (string \<Rightarrow> string \<Rightarrow> kbResult) \<Rightarrow> questionArgs \<Rightarrow> db \<Rightarrow> json \<times> db" where
  "answerQuestion toNumber askKB args d =
     (let d1 = logIntent ''answerQuestion'' (JObj [(''question'', JStr (question args))]) d;
          lang = resolve_lang (language args);
          res = askKB (question args) lang;
          cfg = findFirst_businessConfig d1;
          minConfidence = minConfidence_of cfg;
          lowConfidenceAction = lowConfidenceAction_of cfg;
          d2 = log_citation args lang res d1;
          topConfidence = topConfidence_of res
      in
      if below toNumber topConfidence minConfidence then
        (let d3 = logIntent ''lowConfidenceKB''
                    (JObj [(''question'', JStr (question args)),
                           (''confidence'', topConfidence),
                           (''action'', JStr lowConfidenceAction)]) d2
         in
         if lowConfidenceAction = ''transfer'' then
           (JObj [(''ok'', JBool False),
                  (''lowConfidence'', JBool True),
                  (''action'', JStr ''TRANSFER''),
                  (''message'', JStr ''I'm not confident I have the right information for that question. Let me transfer you to someone who can help better.'')],
            d3)
         else if lowConfidenceAction = ''voicemail'' then
           (JObj [(''ok'', JBool False),
                  (''lowConfidence'', JBool True),
                  (''action'', JStr ''VOICEMAIL''),
                  (''message'', JStr ''I'm not sure I have the right answer for that. Would you like to leave a message and we'll get back to you with the correct information?'')],
            d3)
         else
           (JObj [(''ok'', JBool False),
                  (''lowConfidence'', JBool True),
                  (''action'', JStr ''CLARIFY''),
                  (''message'', JStr ''I'm not entirely sure about that. Could you rephrase your question or ask about something more specific like event dates, ticket prices, or sponsorship opportunities?''),
                  (''partialContext'', JStr (kb_context res)),
                  (''sources'', JArr (kb_sources res))],
            d3))
      else
        (JObj [(''context'', JStr (kb_context res)),
               (''sources'', JArr (kb_sources res)),
               (''ok'', JBool True),
               (''confidenceOk'', JBool True),
               (''topConfidence'', topConfidence)],
         d2))"

text \<open>
  Reading a result: it is confidence-approved when it carries \<open>ok: true\<close> and
  \<open>confidenceOk: true\<close>; it asserts a passage when the passage sits under \<open>context\<close>,
  the key the retrieval result itself uses.
\<close>

definition approved :: "json \<Rightarrow> bool" where
  "approved r = (get r ''ok'' = Some (JBool True) \<and> get r ''confidenceOk'' = Some (JBool True))"

definition gated :: "json \<Rightarrow> bool" where
  "gated r = (get r ''ok'' = Some (JBool False) \<and> get r ''lowConfidence'' = Some (JBool True)
              \<and> get r ''confidenceOk'' = None \<and> get r ''context'' = None)"

section \<open>Tool dispatch\<close>

text \<open>
  A value that a \<open>throw\<close> or a rejected promise carries: \<open>null\<close>, \<open>undefined\<close>, or a
  value with an optional string \<open>message\<close> property and the text \<open>String(e)\<close> gives.
\<close>

datatype thrown =
    ThrowNull
  | ThrowUndefined
  | Throw (message: "string option") (as_string: string)

text \<open>
  A registered tool: an async function of the argument payload that may touch the
  outside world (\<open>'w\<close>) and settles to a result or to a thrown value.
\<close>

type_synonym 'w tool = "json \<Rightarrow> 'w \<Rightarrow> (thrown + json) \<times> 'w"

text \<open>The own properties of the \<open>tools\<close> object literal.\<close>

definition tool_names :: "string list" where
  "tool_names =
     [''getPolicy'', ''setLanguage'', ''getEventInfo'', ''getTicketPricing'', ''purchaseTickets'',
      ''getSponsorshipInfo'', ''captureSponsorInquiry'', ''getPastWinners'', ''getChefInfo'',
      ''getAboutInfo'', ''transferToHuman'', ''bookAppointment'', ''takeMessage'',
      ''answerQuestion'', ''sendTextMessage'']"

text \<open>
  \<open>tools\<close> is an object literal, so the lookup \<open>tools[name]\<close> also finds what the
  literal inherits from \<open>Object.prototype\<close>. These are the inherited property names.
\<close>

definition Object_prototype_names :: "string list" where
  "Object_prototype_names =
     [''constructor'', ''__defineGetter__'', ''__defineSetter__'', ''hasOwnProperty'',
      ''__lookupGetter__'', ''__lookupSetter__'', ''isPrototypeOf'', ''propertyIsEnumerable'',
      ''toString'', ''valueOf'', ''__proto__'', ''toLocaleString'']"

text \<open>
  The call \<open>tool(args)\<close> on an inherited property, made with no receiver. \<open>constructor\<close> is
  \<open>Object\<close>, which hands an object back, makes an empty one from \<open>null\<close> and wraps a
  primitive (the wrapper serialises as the primitive);
  \<open>toString\<close> answers for the missing receiver; \<open>isPrototypeOf\<close> answers \<open>false\<close> for a
  primitive argument; \<open>__proto__\<close> is not a function; every other member needs a receiver.
  The failing calls throw a \<open>TypeError\<close>, whose wording \<open>te name\<close> is the engine's.
\<close>

definition TypeError :: "string \<Rightarrow> thrown" where
  "TypeError msg = Throw (Some msg) (''TypeError: '' @ msg)"

fun is_object :: "json \<Rightarrow> bool" where
  "is_object (JArr _) = True"
| "is_object (JObj _) = True"
| "is_object _ = False"

definition call_inherited :: "(string \<Rightarrow> string) \<Rightarrow> string \<Rightarrow> json \<Rightarrow> thrown + json" where
  "call_inherited te name args =
     (if name = ''constructor'' then Inr (case args of JNull \<Rightarrow> JObj [] | _ \<Rightarrow> args)
      else if name = ''toString'' then Inr (JStr ''[object Undefined]'')
      else if name = ''isPrototypeOf'' \<and> \<not> is_object args then Inr (JBool False)
      else Inl (TypeError (te name)))"

text \<open>
  \<open>handleToolCall\<close> of the tool registry. \<open>impl\<close> gives the body of each registered tool.
  The \<open>catch\<close> block reads \<open>err.message\<close>, which itself throws when \<open>err\<close> is \<open>null\<close> or
  \<open>undefined\<close>; the function then rejects (\<open>Inl\<close>).
\<close>

definition caught :: "thrown \<Rightarrow> thrown + json" where
  "caught err =
     (case err of
        ThrowNull \<Rightarrow> Inl (TypeError ''Cannot read properties of null (reading 'message')'')
      | ThrowUndefined \<Rightarrow> Inl (TypeError ''Cannot read properties of undefined (reading 'message')'')
      | Throw m _ \<Rightarrow>
          Inr (JObj [(''error'', JStr (case m of None \<Rightarrow> ''Tool execution failed''
                                       | Some t \<Rightarrow> message_or t ''Tool execution failed''))]))"

definition handleToolCall ::
    "(string \<Rightarrow> string) \<Rightarrow> (string \<Rightarrow> 'w tool) \<Rightarrow> string \<Rightarrow> json \<Rightarrow> 'w \<Rightarrow> (thrown + json) \<times> 'w" where
  "handleToolCall te impl name args w =
     (if name \<in> set tool_names then
        (case impl name args w of
           (Inr result, w') \<Rightarrow> (Inr result, w')
         | (Inl err, w') \<Rightarrow> (caught err, w'))
      else if name \<in> set Object_prototype_names then
        (case call_inherited te name args of
           Inr result \<Rightarrow> (Inr result, w)
         | Inl err \<Rightarrow> (caught err, w))
      else (Inr (JObj [(''error'', JStr (''Unknown tool: '' @ name))]), w))"

definition unknown_tool :: "string \<Rightarrow> json" where
  "unknown_tool name = JObj [(''error'', JStr (''Unknown tool: '' @ name))]"

section \<open>The realtime model session client\<close>

datatype readyState = CONNECTING | OPEN | CLOSING | CLOSED

text \<open>
  The fields of \<open>OpenAIRealtimeClient\<close> that the operations below touch. \<open>ws\<close> is the
  socket's \<open>readyState\<close> when a socket exists; \<open>wire\<close> lists the objects whose
  serialisation \<open>ws.send\<close> has been given, oldest first.
\<close>

record client =
  ws :: "readyState option"
  connected :: bool
  pendingBytes :: nat
  heartbeatTimer :: bool
  wire :: "json list"

text \<open>\<open>send\<close>: a silent return unless the socket exists and is open.\<close>

definition send :: "json \<Rightarrow> client \<Rightarrow> client" where
  "send obj c =
     (case ws c of
        None \<Rightarrow> c
      | Some s \<Rightarrow> if s \<noteq> OPEN then c else c\<lparr>wire := wire c @ [obj]\<rparr>)"

text \<open>\<open>WebSocket.close()\<close>: a socket that is not yet closed starts closing.\<close>

fun ws_close :: "readyState \<Rightarrow> readyState" where
  "ws_close CLOSED = CLOSED"
| "ws_close _ = CLOSING"

definition stopHeartbeat :: "client \<Rightarrow> client" where
  "stopHeartbeat c = (if heartbeatTimer c then c\<lparr>heartbeatTimer := False\<rparr> else c)"

definition close :: "client \<Rightarrow> client" where
  "close c = (let c1 = stopHeartbeat c in c1\<lparr>ws := map_option ws_close (ws c1), connected := False\<rparr>)"



definition commit_msg :: json where
  "commit_msg = JObj [(''type'', JStr ''input_audio_buffer.commit'')]"





record ToolCallEvent =
  call_id :: "string option"
  call_name :: "string option"
  tool_name :: "string option"
  arguments :: "json option"
  tool_call_id :: "string option"

text \<open>\<open>a || b\<close> on optional strings.\<close>

definition or_else :: "string option \<Rightarrow> string option \<Rightarrow> string option" where
  "or_else a b = (if given a then a else b)"

text \<open>\<open>safeParseJson\<close>; \<open>parse\<close> stands for \<open>JSON.parse\<close>, \<open>None\<close> for its \<open>SyntaxError\<close>.\<close>

definition safeParseJson :: "(string \<Rightarrow> json option) \<Rightarrow> string \<Rightarrow> json" where
  "safeParseJson parse s =
     (if s = [] then JObj []
      else (case parse s of None \<Rightarrow> JObj [] | Some v \<Rightarrow> v))"

definition call_args :: "(string \<Rightarrow> json option) \<Rightarrow> ToolCallEvent \<Rightarrow> json" where
  "call_args parse call =
     (case arguments call of
        Some (JStr s) \<Rightarrow> safeParseJson parse s
      | Some v \<Rightarrow> if truthy v then v else JObj []
      | None \<Rightarrow> JObj [])"

text \<open>\<open>e?.message || String(e)\<close>.\<close>

definition error_text :: "thrown \<Rightarrow> string" where
  "error_text e =
     (case e of
        ThrowNull \<Rightarrow> ''null''
      | ThrowUndefined \<Rightarrow> ''undefined''
      | Throw m str \<Rightarrow> (case m of None \<Rightarrow> str | Some t \<Rightarrow> message_or t str))"

text \<open>The text of an optional string inside a template literal.\<close>

definition template :: "string option \<Rightarrow> string" where
  "template s = (case s of None \<Rightarrow> ''undefined'' | Some t \<Rightarrow> t)"

text \<open>
  The output of a tool call: the handler's result, the error object when the handler
  throws, and the \<open>Unhandled tool\<close> object when no handler is installed.
\<close>

definition tool_output ::
    "(string \<Rightarrow> json option) \<Rightarrow> (ToolCallEvent \<Rightarrow> thrown + json) option \<Rightarrow> ToolCallEvent \<Rightarrow> json" where
  "tool_output parse onToolCall call =
     (case onToolCall of
        None \<Rightarrow> JObj [(''ok'', JBool False),
                       (''error'', JStr (''Unhandled tool '' @ template (or_else (call_name call) (tool_name call))))]
      | Some h \<Rightarrow>
          (case h (call\<lparr>arguments := Some (call_args parse call)\<rparr>) of
             Inr v \<Rightarrow> v
           | Inl e \<Rightarrow> JObj [(''ok'', JBool False), (''error'', JStr (error_text e))]))"

text \<open>
  The \<open>tool.output\<close> message; a correlation token that is \<open>undefined\<close> leaves no key.
  \<open>stringify\<close> stands for \<open>JSON.stringify\<close>.
\<close>

definition tool_output_msg :: "(json \<Rightarrow> string) \<Rightarrow> string option \<Rightarrow> json \<Rightarrow> json" where
  "tool_output_msg stringify toolCallId output =
     JObj ([(''type'', JStr ''tool.output'')]
           @ (case toolCallId of None \<Rightarrow> [] | Some t \<Rightarrow> [(''tool_call_id'', JStr t)])
           @ [(''output'', JStr (stringify output))])"

text \<open>
  The client's \<open>handleToolCall\<close>. The handler is awaited, so the \<open>send\<close> at the end acts on
  the client as it is when the handler has settled: \<open>c\<close> is that state.
\<close>

definition client_handleToolCall ::
    "(string \<Rightarrow> json option) \<Rightarrow> (json \<Rightarrow> string) \<Rightarrow> (ToolCallEvent \<Rightarrow> thrown + json) option
       \<Rightarrow> ToolCallEvent \<Rightarrow> client \<Rightarrow> client" where
  "client_handleToolCall parse stringify onToolCall call c =
     (let toolCallId = or_else (tool_call_id call) (call_id call);
          output = tool_output parse onToolCall call
      in send (tool_output_msg stringify toolCallId output) c)"

section \<open>Event lookup\<close>

text \<open>\<open>name: { contains: eventName }\<close>: the name has the text as a contiguous part.\<close>

fun starts_with :: "string \<Rightarrow> string \<Rightarrow> bool" where
  "starts_with s [] = True"
| "starts_with [] (p # ps) = False"
| "starts_with (c # cs) (p # ps) = (c = p \<and> starts_with cs ps)"

fun contains_str :: "string \<Rightarrow> string \<Rightarrow> bool" where
  "contains_str [] part = (part = [])"
| "contains_str (c # cs) part = (starts_with (c # cs) part \<or> contains_str cs part)"

text \<open>The \<open>where\<close> clause of \<open>getEventInfo\<close>: the name filter is there only for a truthy \<open>eventName\<close>.\<close>

definition name_wanted :: "string option \<Rightarrow> event \<Rightarrow> bool" where
  "name_wanted eventName e =
     (case eventName of
        None \<Rightarrow> True
      | Some n \<Rightarrow> if n \<noteq> [] then contains_str (ev_name e) n else True)"

definition wanted :: "int \<Rightarrow> string option \<Rightarrow> event \<Rightarrow> bool" where
  "wanted now eventName e = (active e \<and> now \<le> ev_date e \<and> name_wanted eventName e)"

text \<open>\<open>prisma.event.findMany({ where, orderBy: { date: 'asc' }, take: 3 })\<close>.\<close>

definition findMany_events :: "int \<Rightarrow> string option \<Rightarrow> db \<Rightarrow> event list" where
  "findMany_events now eventName d = take 3 (sort_key ev_date (filter (wanted now eventName) (events d)))"





section \<open>Purchase and sponsor inquiry tools\<close>

text \<open>
  What a tool invocation meets outside the database: the clock, the generated uuid,
  Stripe's two answers, and the four notification calls, each a function from the
  request object to what its promise settles to. \<open>longDate\<close> and \<open>toFixed2\<close> stand for
  \<open>toLocaleDateString\<close> and \<open>toFixed(2)\<close>.
\<close>

record env =
  env_now :: int
  env_uuid :: string
  env_method :: "string settled"
  env_intent :: "paymentIntent settled"
  sendTicketConfirmation :: "json \<Rightarrow> bool settled"
  notifyTicketPurchase :: "json \<Rightarrow> unit settled"
  sendSponsorFollowUp :: "json \<Rightarrow> bool settled"
  notifySponsorInquiry :: "json \<Rightarrow> unit settled"
  env_longDate :: "int \<Rightarrow> string"
  env_toFixed2 :: "rat \<Rightarrow> string"

text \<open>
  \<open>promise.catch(err => console.error(label, err))\<close> on a promise that is not awaited:
  the lines the handler writes to the console once the promise has settled.
\<close>

definition detached :: "string \<Rightarrow> 'a settled \<Rightarrow> string list" where
  "detached label p = (case p of Resolved _ \<Rightarrow> [] | Rejected m \<Rightarrow> [label @ '' '' @ m])"

record purchaseArgs =
  pa_ticketType :: ticketType
  pa_quantity :: int
  pa_customerName :: string
  pa_customerEmail :: string
  pa_customerPhone :: string
  pa_cardNumber :: string
  pa_expMonth :: string
  pa_expYear :: string
  pa_cvc :: string
  pa_eventId :: "string option"
  pa_callSid :: "string option"

definition text_or :: "string \<Rightarrow> string \<Rightarrow> string" where
  "text_or s fallback = (if s \<noteq> [] then s else fallback)"

definition ticket_sms_request :: "env \<Rightarrow> purchaseArgs \<Rightarrow> event option \<Rightarrow> string \<Rightarrow> string \<Rightarrow> json" where
  "ticket_sms_request w args ev code totalPrice =
     JObj [(''to'', JStr (pa_customerPhone args)),
           (''customerName'', JStr (pa_customerName args)),
           (''eventName'', JStr (case ev of None \<Rightarrow> ''Soup Cook Off'' | Some e \<Rightarrow> text_or (ev_name e) ''Soup Cook Off'')),
           (''eventDate'', JStr (case ev of None \<Rightarrow> ''TBD'' | Some e \<Rightarrow> text_or (env_longDate w (ev_date e)) ''TBD'')),
           (''eventLocation'', JStr (case ev of None \<Rightarrow> ''TBD'' | Some e \<Rightarrow> text_or (location e) ''TBD'')),
           (''ticketType'', JStr (ticketType_str (pa_ticketType args))),
           (''quantity'', JNum (of_int (pa_quantity args))),
           (''confirmationCode'', JStr code),
           (''totalPrice'', JStr totalPrice)]"

definition ticket_slack_request :: "purchaseArgs \<Rightarrow> event option \<Rightarrow> string \<Rightarrow> string \<Rightarrow> json" where
  "ticket_slack_request args ev code totalPrice =
     JObj [(''customerName'', JStr (pa_customerName args)),
           (''customerPhone'', JStr (pa_customerPhone args)),
           (''eventName'', JStr (case ev of None \<Rightarrow> ''Soup Cook Off'' | Some e \<Rightarrow> text_or (ev_name e) ''Soup Cook Off'')),
           (''ticketType'', JStr (ticketType_str (pa_ticketType args))),
           (''quantity'', JNum (of_int (pa_quantity args))),
           (''totalPrice'', JStr totalPrice),
           (''confirmationCode'', JStr code)]"

definition purchase_ok :: "string \<Rightarrow> string \<Rightarrow> json" where
  "purchase_ok code email =
     JObj [(''ok'', JBool True),
           (''confirmationCode'', JStr code),
           (''smsSent'', JBool True),
           (''message'', JStr (''Your purchase is complete! Your confirmation code is '' @ code
              @ ''. I've sent a text message to your phone with all the details. You'll also receive a confirmation email at ''
              @ email @ ''.''))]"

text \<open>
  \<open>tools.purchaseTickets\<close>. The result comes with the database after the call and the
  console lines of the two detached notifications.
\<close>

definition purchaseTickets :: "env \<Rightarrow> purchaseArgs \<Rightarrow> db \<Rightarrow> json \<times> db \<times> string list" where
  "purchaseTickets w args d =
     (let d1 = logIntent ''purchaseTickets''
                 (JObj [(''ticketType'', JStr (ticketType_str (pa_ticketType args))),
                        (''quantity'', JNum (of_int (pa_quantity args))),
                        (''customerEmail'', JStr (pa_customerEmail args))]) d
      in
      case (if given (pa_eventId args) then pa_eventId args
            else map_option ev_id (findFirst_upcoming d1 (env_now w))) of
        None \<Rightarrow> (JObj [(''ok'', JBool False), (''error'', JStr ''No upcoming events available'')], d1, [])
      | Some eventId \<Rightarrow>
          (let callLogId = (if given (pa_callSid args)
                            then map_option cl_id (find (\<lambda>c. Some (cl_callSid c) = pa_callSid args) (callLogs d1))
                            else None);
               (result, d2) = processVoicePayment (env_uuid w) (env_method w) (env_intent w)
                   \<lparr> pr_eventId = eventId, pr_ticketType = pa_ticketType args,
                     pr_quantity = pa_quantity args, pr_customerName = pa_customerName args,
                     pr_customerEmail = pa_customerEmail args,
                     pr_customerPhone = pa_customerPhone args, pr_callLogId = callLogId \<rparr> d1
           in
           if success result then
             (let ev = findUnique_event d2 eventId;
                  unitPrice = (case ev of
                                 None \<Rightarrow> (case pa_ticketType args of VIP \<Rightarrow> 35 | GA \<Rightarrow> 15)
                               | Some e \<Rightarrow> unitPrice_of (pa_ticketType args) e);
                  totalPrice = ''$'' @ env_toFixed2 w (unitPrice * of_int (pa_quantity args));
                  code = template (confirmationCode result)
              in (purchase_ok code (pa_customerEmail args), d2,
                  detached ''SMS send failed:''
                    (sendTicketConfirmation w (ticket_sms_request w args ev code totalPrice))
                  @ detached ''Slack notification failed:''
                    (notifyTicketPurchase w (ticket_slack_request args ev code totalPrice))))
           else
             (JObj ([(''ok'', JBool False)]
                    @ (case error result of None \<Rightarrow> [] | Some m \<Rightarrow> [(''error'', JStr m)])), d2, [])))"

record sponsorArgs =
  sa_contactName :: string
  sa_companyName :: "string option"
  sa_phone :: string
  sa_email :: "string option"
  sa_interestedLevel :: "string option"
  sa_notes :: "string option"
  sa_callSid :: "string option"

text \<open>\<open>x || null\<close> on an optional string.\<close>

definition or_null :: "string option \<Rightarrow> string option" where
  "or_null x = (if given x then x else None)"

definition opt_field :: "string \<Rightarrow> string option \<Rightarrow> (string \<times> json) list" where
  "opt_field k v = (case v of None \<Rightarrow> [] | Some s \<Rightarrow> [(k, JStr s)])"

definition sponsor_meta :: "sponsorArgs \<Rightarrow> json" where
  "sponsor_meta args =
     JObj ([(''contactName'', JStr (sa_contactName args))]
           @ opt_field ''companyName'' (sa_companyName args)
           @ [(''phone'', JStr (sa_phone args))]
           @ opt_field ''email'' (sa_email args)
           @ opt_field ''interestedLevel'' (sa_interestedLevel args)
           @ opt_field ''notes'' (sa_notes args)
           @ opt_field ''callSid'' (sa_callSid args))"

definition sponsor_ok :: json where
  "sponsor_ok =
     JObj [(''ok'', JBool True),
           (''smsSent'', JBool True),
           (''message'', JStr ''Thank you for your interest in sponsoring The Soup Cookoff! I've sent you a text message with more information. Our team will contact you within 48 hours.'')]"

text \<open>\<open>tools.captureSponsorInquiry\<close>.\<close>

definition captureSponsorInquiry :: "env \<Rightarrow> sponsorArgs \<Rightarrow> db \<Rightarrow> json \<times> db \<times> string list" where
  "captureSponsorInquiry w args d =
     (let d1 = logIntent ''captureSponsorInquiry'' (sponsor_meta args) d;
          d2 = d1\<lparr>sponsorInquiries := sponsorInquiries d1 @ [\<lparr>
                  si_contactName = sa_contactName args,
                  si_companyName = or_null (sa_companyName args),
                  si_phone = sa_phone args,
                  si_email = or_null (sa_email args),
                  si_interestedTier = or_null (sa_interestedLevel args),
                  si_notes = or_null (sa_notes args) \<rparr>]\<rparr>;
          tier = (if given (sa_interestedLevel args) then template (sa_interestedLevel args) else ''General'')
      in (sponsor_ok, d2,
          detached ''Sponsor SMS send failed:''
            (sendSponsorFollowUp w
               (JObj ([(''to'', JStr (sa_phone args)), (''contactName'', JStr (sa_contactName args))]
                      @ opt_field ''companyName'' (sa_companyName args)
                      @ [(''tier'', JStr tier)])))
          @ detached ''Slack notification failed:''
            (notifySponsorInquiry w
               (JObj ([(''contactName'', JStr (sa_contactName args))]
                      @ opt_field ''companyName'' (sa_companyName args)
                      @ [(''phone'', JStr (sa_phone args))]
                      @ opt_field ''email'' (sa_email args)
                      @ [(''tier'', JStr tier)])))))"

section \<open>Concrete inputs\<close>

text \<open>The same event after one more general-admission ticket than it has room for.\<close>

definition oversold_db :: db where
  "oversold_db = empty_db\<lparr>events := [soldout_event\<lparr>gaSold := 501\<rparr>]\<rparr>"

definition soldout_prices :: ticketPrices where
  "soldout_prices = \<lparr> tpr_event = soldout_event, gaOnline = 15, gaGate = 20, vipOnline = 35,
     vipGate = 40, gaAvailable = 0, vipAvailable = 100 \<rparr>"

definition no_text :: "'a \<Rightarrow> string" where
  "no_text x = []"

text \<open>A caller buying one general-admission ticket, every collaborator answering well.\<close>

definition calm_env :: env where
  "calm_env = \<lparr> env_now = 1000, env_uuid = ''1f0e9a7c-aaaa'', env_method = Resolved ''pm_1'',
     env_intent = charged,
     sendTicketConfirmation = (\<lambda>r. Resolved True), notifyTicketPurchase = (\<lambda>r. Resolved ()),
     sendSponsorFollowUp = (\<lambda>r. Resolved True), notifySponsorInquiry = (\<lambda>r. Resolved ()),
     env_longDate = no_text, env_toFixed2 = no_text \<rparr>"

definition one_GA_ticket :: purchaseArgs where
  "one_GA_ticket = \<lparr> pa_ticketType = GA, pa_quantity = 1, pa_customerName = ''Pat'',
     pa_customerEmail = ''pat@example.org'', pa_customerPhone = ''7175550100'',
     pa_cardNumber = ''4242 4242 4242 4242'', pa_expMonth = ''12'', pa_expYear = ''30'',
     pa_cvc = ''123'', pa_eventId = Some ''ev1'', pa_callSid = None \<rparr>"

definition acme_inquiry :: sponsorArgs where
  "acme_inquiry = \<lparr> sa_contactName = ''Sam'', sa_companyName = Some ''Acme'',
     sa_phone = ''7175550101'', sa_email = None, sa_interestedLevel = None, sa_notes = None,
     sa_callSid = None \<rparr>"

text \<open>Two retrieval answers: one candidate scored 0.91, one scored 0.10; and no candidate.\<close>

definition kb_strong :: "string \<Rightarrow> string \<Rightarrow> kbResult" where
  "kb_strong q lang = \<lparr> kb_context = ''The next event is in Harrisburg.'',
     kb_sources = [JObj [(''id'', JStr ''faq-1''), (''score'', JNum (91 / 100))]] \<rparr>"

definition kb_weak :: "string \<Rightarrow> string \<Rightarrow> kbResult" where
  "kb_weak q lang = \<lparr> kb_context = ''Soup is served warm.'',
     kb_sources = [JObj [(''id'', JStr ''faq-7''), (''score'', JNum (10 / 100))]] \<rparr>"

definition kb_empty :: "string \<Rightarrow> string \<Rightarrow> kbResult" where
  "kb_empty q lang = \<lparr> kb_context = [], kb_sources = [] \<rparr>"

text \<open>A string where a number belongs, and the conversion that reads no string.\<close>

definition no_number :: "json \<Rightarrow> rat option" where
  "no_number v = None"

text \<open>Two configured policies: transfer below 0.95, and voicemail below 0.05.\<close>

definition strict_db :: db where
  "strict_db = empty_db\<lparr>businessConfigs :=
     [\<lparr> kbMinConfidence = Some (95 / 100), lowConfidenceAction = Some ''transfer'' \<rparr>]\<rparr>"

definition lenient_db :: db where
  "lenient_db = empty_db\<lparr>businessConfigs :=
     [\<lparr> kbMinConfidence = Some (5 / 100), lowConfidenceAction = Some ''voicemail'' \<rparr>]\<rparr>"

definition next_event_question :: questionArgs where
  "next_event_question = \<lparr> question = ''when is the next event'', language = None, callSid = None \<rparr>"

text \<open>Clients: one with an open socket, one that never had a socket; and a tool call.\<close>

definition open_client :: client where
  "open_client = \<lparr> ws = Some OPEN, connected = True, pendingBytes = 0, heartbeatTimer = True, wire = [] \<rparr>"

definition bare_client :: client where
  "bare_client = \<lparr> ws = None, connected = False, pendingBytes = 0, heartbeatTimer = False, wire = [] \<rparr>"

definition pricing_call :: ToolCallEvent where
  "pricing_call = \<lparr> call_id = Some ''evt_9'', call_name = Some ''getTicketPricing'', tool_name = None,
     arguments = Some (JStr ''{not json''), tool_call_id = Some ''call_42'' \<rparr>"

definition no_parse :: "string \<Rightarrow> json option" where
  "no_parse s = None"

definition failing_handler :: "ToolCallEvent \<Rightarrow> thrown + json" where
  "failing_handler call = Inl (Throw (Some ''database unavailable'') ''Error: database unavailable'')"

text \<open>The same collaborators, with both ticket notifications rejecting.\<close>

definition stormy_env :: env where
  "stormy_env = calm_env\<lparr> sendTicketConfirmation := (\<lambda>r. Rejected ''Twilio is down''),
     notifyTicketPurchase := (\<lambda>r. Rejected ''Slack is down'') \<rparr>"

definition roomy_db :: db where
  "roomy_db = empty_db\<lparr>events := [soldout_event\<lparr>gaSold := 10\<rparr>]\<rparr>"


section \<open>Properties of the price and availability lookup\<close>

lemma events_logIntent [simp]: "events (logIntent i m d) = events d"
  by (simp add: logIntent_def)

lemma businessConfigs_logIntent [simp]: "businessConfigs (logIntent i m d) = businessConfigs d"
  by (simp add: logIntent_def)

lemma callLogs_logIntent [simp]: "callLogs (logIntent i m d) = callLogs d"
  by (simp add: logIntent_def)

lemma findUnique_event_logIntent [simp]:
  "findUnique_event (logIntent i m d) k = findUnique_event d k"
  by (simp add: findUnique_event_def)

lemma findFirst_upcoming_logIntent [simp]:
  "findFirst_upcoming (logIntent i m d) now = findFirst_upcoming d now"
  by (simp add: findFirst_upcoming_def)

lemma getTicketPrices_logIntent [simp]:
  "getTicketPrices (logIntent i m d) now eventId = getTicketPrices d now eventId"
  by (cases eventId) (simp_all add: getTicketPrices_def)

lemma getTicketPrices_Some:
  "getTicketPrices d now eventId = Some p \<Longrightarrow>
     gaAvailable p = gaCapacity (tpr_event p) - gaSold (tpr_event p) \<and>
     vipAvailable p = vipCapacity (tpr_event p) - vipSold (tpr_event p)"
  by (auto simp: getTicketPrices_def split: option.splits if_splits)

lemma soldout_lookup: "getTicketPrices soldout_db 0 (Some ''ev1'') = Some soldout_prices"
  by (simp add: getTicketPrices_def findUnique_event_def soldout_db_def empty_db_def
      soldout_event_def soldout_prices_def)

text \<open>
  Claim C3, as the code has it. Whenever the lookup finds an event, the availability
  it returns for each tier is that tier's capacity minus its sold counter, in
  \<open>getTicketPrices\<close> and in the object \<open>getTicketPricing\<close> hands to the model alike; the
  value is non-negative exactly when the sold counter does not exceed the capacity.
  Nothing clamps the difference.
\<close>

theorem availability_is_capacity_minus_sold:
  "getTicketPrices d now eventId = Some p \<Longrightarrow>
     gaAvailable p = gaCapacity (tpr_event p) - gaSold (tpr_event p) \<and>
     vipAvailable p = vipCapacity (tpr_event p) - vipSold (tpr_event p) \<and>
     (0 \<le> gaAvailable p) = (gaSold (tpr_event p) \<le> gaCapacity (tpr_event p)) \<and>
     (0 \<le> vipAvailable p) = (vipSold (tpr_event p) \<le> vipCapacity (tpr_event p)) \<and>
     reported_available (fst (getTicketPricing fmt now eventId d)) ''generalAdmission''
       = Some (JNum (of_int (gaCapacity (tpr_event p) - gaSold (tpr_event p)))) \<and>
     reported_available (fst (getTicketPricing fmt now eventId d)) ''vip''
       = Some (JNum (of_int (vipCapacity (tpr_event p) - vipSold (tpr_event p))))"
proof -
  assume h: "getTicketPrices d now eventId = Some p"
  note av = getTicketPrices_Some [OF h]
  have "reported_available (fst (getTicketPricing fmt now eventId d)) ''generalAdmission''
       = Some (JNum (of_int (gaAvailable p)))"
    by (simp add: getTicketPricing_def h reported_available_def Let_def)
  moreover have "reported_available (fst (getTicketPricing fmt now eventId d)) ''vip''
       = Some (JNum (of_int (vipAvailable p)))"
    by (simp add: getTicketPricing_def h reported_available_def Let_def)
  ultimately show ?thesis using av by simp
qed

text \<open>The lookup on the sold-out event: 500 of 500 sold, so 0 available.\<close>

theorem availability_is_capacity_minus_sold_witness:
  "getTicketPrices soldout_db 0 (Some ''ev1'') = Some soldout_prices \<and>
   gaAvailable soldout_prices = 0 \<and> vipAvailable soldout_prices = 100 \<and>
   reported_available (fst (getTicketPricing no_text 0 (Some ''ev1'') soldout_db)) ''generalAdmission''
     = Some (JNum 0)"
  using availability_is_capacity_minus_sold [OF soldout_lookup, of no_text]
  by (simp add: soldout_lookup soldout_prices_def soldout_event_def)

text \<open>
  Claim C3, as the spec words it, fails: with 501 general-admission tickets sold of a
  capacity of 500, the lookup returns an availability of \<open>-1\<close>.
\<close>

theorem negative_availability_counterexample:
  "map_option gaAvailable (getTicketPrices oversold_db 0 (Some ''ev1'')) = Some (- 1) \<and>
   reported_available (fst (getTicketPricing no_text 0 (Some ''ev1'') oversold_db)) ''generalAdmission''
     = Some (JNum (- 1))"
  by (simp add: getTicketPricing_def getTicketPrices_def findUnique_event_def oversold_db_def
      empty_db_def soldout_event_def reported_available_def logIntent_def Let_def)

section \<open>Properties of the purchase path\<close>

text \<open>
  Claim C1. The voice purchase of one general-admission ticket for the sold-out event
  (500 of 500 sold), with the card charged, succeeds and leaves the sold counter at 501
  against a capacity of 500. The web checkout path, asked for the same ticket, refuses
  with the remaining-tickets error.
\<close>

theorem voice_purchase_oversells:
  "get (fst (purchaseTickets calm_env one_GA_ticket soldout_db)) ''ok'' = Some (JBool True) \<and>
   map gaSold (events (fst (snd (purchaseTickets calm_env one_GA_ticket soldout_db)))) = [501] \<and>
   map gaCapacity (events (fst (snd (purchaseTickets calm_env one_GA_ticket soldout_db)))) = [500] \<and>
   error (fst (createTicketPaymentIntent (env_uuid calm_env) charged one_more_GA soldout_db))
     = Some ''Only 0 GA tickets remaining''"
  by (simp add: purchaseTickets_def processVoicePayment_def createTicketPaymentIntent_def
      findUnique_event_def soldout_db_def empty_db_def soldout_event_def calm_env_def
      one_GA_ticket_def one_more_GA_def charged_def logIntent_def Let_def purchase_ok_def
      failed_def sold_of_def capacity_of_def show_int_def digits_of.simps digit_char_def)

section \<open>Properties of the confidence gate\<close>

lemma findFirst_businessConfig_logIntent [simp]:
  "findFirst_businessConfig (logIntent i m d) = findFirst_businessConfig d"
  by (simp add: findFirst_businessConfig_def)

lemma answerQuestion_low:
  "below toNumber (topConfidence_of (askKB (question args) (resolve_lang (language args)))) (minConfidence_of (findFirst_businessConfig d)) \<Longrightarrow>
   gated (fst (answerQuestion toNumber askKB args d)) \<and>
   \<not> approved (fst (answerQuestion toNumber askKB args d)) \<and>
   get (fst (answerQuestion toNumber askKB args d)) ''action''
     = Some (JStr (if lowConfidenceAction_of (findFirst_businessConfig d) = ''transfer'' then ''TRANSFER''
                   else if lowConfidenceAction_of (findFirst_businessConfig d) = ''voicemail'' then ''VOICEMAIL''
                   else ''CLARIFY''))"
  by (simp add: answerQuestion_def Let_def gated_def approved_def)

lemma answerQuestion_high:
  "\<not> below toNumber (topConfidence_of (askKB (question args) (resolve_lang (language args)))) (minConfidence_of (findFirst_businessConfig d)) \<Longrightarrow>
   approved (fst (answerQuestion toNumber askKB args d)) \<and>
   get (fst (answerQuestion toNumber askKB args d)) ''context'' = Some (JStr (kb_context (askKB (question args) (resolve_lang (language args))))) \<and>
   get (fst (answerQuestion toNumber askKB args d)) ''sources'' = Some (JArr (kb_sources (askKB (question args) (resolve_lang (language args)))))"
  by (simp add: answerQuestion_def Let_def approved_def)

lemma top_score:
  "kb_sources res = best # rest \<Longrightarrow> get best ''score'' = Some (JNum s) \<Longrightarrow>
   topConfidence_of res = JNum s"
  by (simp add: topConfidence_of_def)

lemma below_number [simp]: "below toNumber (JNum x) th = (x < th)"
  by (simp add: below_def)

lemma configured_row:
  "businessConfigs d = c # cs \<Longrightarrow> findFirst_businessConfig d = Some c"
  by (simp add: findFirst_businessConfig_def)

lemma no_row:
  "businessConfigs d = [] \<Longrightarrow> findFirst_businessConfig d = None"
  by (simp add: findFirst_businessConfig_def)

lemma gate_below:
  assumes "kb_sources (askKB (question args) (resolve_lang (language args))) = best # rest"
      and "get best ''score'' = Some (JNum s)"
      and "minConfidence_of (findFirst_businessConfig d) = th"
      and "lowConfidenceAction_of (findFirst_businessConfig d) = a"
      and "s < th"
  shows "gated (fst (answerQuestion toNumber askKB args d)) \<and> \<not> approved (fst (answerQuestion toNumber askKB args d)) \<and>
         get (fst (answerQuestion toNumber askKB args d)) ''action'' = Some (JStr (if a = ''transfer'' then ''TRANSFER''
                           else if a = ''voicemail'' then ''VOICEMAIL'' else ''CLARIFY''))"
proof -
  from assms have "below toNumber (topConfidence_of (askKB (question args) (resolve_lang (language args)))) (minConfidence_of (findFirst_businessConfig d))"
    by (simp add: top_score)
  with answerQuestion_low [of toNumber askKB args d] assms(4) show ?thesis by simp
qed

lemma gate_reached:
  assumes "kb_sources (askKB (question args) (resolve_lang (language args))) = best # rest"
      and "get best ''score'' = Some (JNum s)"
      and "minConfidence_of (findFirst_businessConfig d) = th"
      and "th \<le> s"
  shows "approved (fst (answerQuestion toNumber askKB args d)) \<and>
         get (fst (answerQuestion toNumber askKB args d)) ''context'' = Some (JStr (kb_context (askKB (question args) (resolve_lang (language args))))) \<and>
         get (fst (answerQuestion toNumber askKB args d)) ''sources'' = Some (JArr (best # rest))"
proof -
  from assms have "\<not> below toNumber (topConfidence_of (askKB (question args) (resolve_lang (language args)))) (minConfidence_of (findFirst_businessConfig d))"
    by (simp add: top_score)
  with answerQuestion_high [of toNumber askKB args d] assms(1) show ?thesis by simp
qed

text \<open>
  Claim C2. Let the retrieval answer have a top candidate with the numeric score \<open>s\<close>,
  and let the first \<open>BusinessConfig\<close> row set the threshold \<open>th\<close> and the action \<open>a\<close>.
  If \<open>s < th\<close> the result is gated: \<open>ok: false\<close>, \<open>lowConfidence: true\<close>, no approval flag
  and no \<open>context\<close>, with an action among CLARIFY, TRANSFER and VOICEMAIL that is TRANSFER
  for \<open>a = transfer\<close>, VOICEMAIL for \<open>a = voicemail\<close> and CLARIFY for \<open>ask_clarify\<close> and
  every other text. If \<open>th \<le> s\<close> the result carries the passage under \<open>context\<close>, the
  non-empty source list and the flags \<open>ok: true\<close>, \<open>confidenceOk: true\<close>. A threshold or
  an action the row leaves null, and a missing row, stand for 0.55 and \<open>ask_clarify\<close>.
\<close>

theorem answerQuestion_confidence_gate:
  assumes first: "kb_sources (askKB (question args) (resolve_lang (language args))) = best # rest"
      and score: "get best ''score'' = Some (JNum s)"
  shows "(businessConfigs d = c # cs \<and> kbMinConfidence c = Some th \<and> lowConfidenceAction c = Some a \<longrightarrow>
            (s < th \<longrightarrow>
               gated (fst (answerQuestion toNumber askKB args d)) \<and>
               \<not> approved (fst (answerQuestion toNumber askKB args d)) \<and>
               get (fst (answerQuestion toNumber askKB args d)) ''action'' \<in> {Some (JStr ''CLARIFY''), Some (JStr ''TRANSFER''), Some (JStr ''VOICEMAIL'')} \<and>
               (a = ''transfer'' \<longrightarrow> get (fst (answerQuestion toNumber askKB args d)) ''action'' = Some (JStr ''TRANSFER'')) \<and>
               (a = ''voicemail'' \<longrightarrow> get (fst (answerQuestion toNumber askKB args d)) ''action'' = Some (JStr ''VOICEMAIL'')) \<and>
               (a = ''ask_clarify'' \<longrightarrow> get (fst (answerQuestion toNumber askKB args d)) ''action'' = Some (JStr ''CLARIFY'')) \<and>
               (a \<noteq> ''transfer'' \<and> a \<noteq> ''voicemail'' \<longrightarrow> get (fst (answerQuestion toNumber askKB args d)) ''action'' = Some (JStr ''CLARIFY''))) \<and>
            (th \<le> s \<longrightarrow>
               approved (fst (answerQuestion toNumber askKB args d)) \<and>
               get (fst (answerQuestion toNumber askKB args d)) ''context'' = Some (JStr (kb_context (askKB (question args) (resolve_lang (language args))))) \<and>
               get (fst (answerQuestion toNumber askKB args d)) ''sources'' = Some (JArr (best # rest))))
       \<and> (businessConfigs d = c # cs \<and> kbMinConfidence c = None \<longrightarrow>
            (s < 55 / 100 \<longrightarrow> gated (fst (answerQuestion toNumber askKB args d)) \<and> \<not> approved (fst (answerQuestion toNumber askKB args d))) \<and>
            (55 / 100 \<le> s \<longrightarrow> approved (fst (answerQuestion toNumber askKB args d))))
       \<and> (businessConfigs d = c # cs \<and> kbMinConfidence c = Some th \<and> lowConfidenceAction c = None \<and> s < th \<longrightarrow>
            gated (fst (answerQuestion toNumber askKB args d)) \<and> get (fst (answerQuestion toNumber askKB args d)) ''action'' = Some (JStr ''CLARIFY''))
       \<and> (businessConfigs d = [] \<longrightarrow>
            (s < 55 / 100 \<longrightarrow>
               gated (fst (answerQuestion toNumber askKB args d)) \<and> \<not> approved (fst (answerQuestion toNumber askKB args d)) \<and> get (fst (answerQuestion toNumber askKB args d)) ''action'' = Some (JStr ''CLARIFY'')) \<and>
            (55 / 100 \<le> s \<longrightarrow>
               approved (fst (answerQuestion toNumber askKB args d)) \<and>
               get (fst (answerQuestion toNumber askKB args d)) ''context'' = Some (JStr (kb_context (askKB (question args) (resolve_lang (language args))))) \<and>
               get (fst (answerQuestion toNumber askKB args d)) ''sources'' = Some (JArr (best # rest))))"
proof -
  have row: "gated (fst (answerQuestion toNumber askKB args d)) \<and> \<not> approved (fst (answerQuestion toNumber askKB args d)) \<and>
         get (fst (answerQuestion toNumber askKB args d)) ''action'' = Some (JStr (if a = ''transfer'' then ''TRANSFER''
                           else if a = ''voicemail'' then ''VOICEMAIL'' else ''CLARIFY''))"
    if "businessConfigs d = c # cs" "kbMinConfidence c = Some th" "lowConfidenceAction c = Some a" "s < th"
    using that gate_below [where askKB = askKB and args = args and d = d and th = "th" and a = "a" and toNumber = toNumber, OF first score]
    by (simp add: configured_row minConfidence_of_def lowConfidenceAction_of_def)
  have row_ok: "approved (fst (answerQuestion toNumber askKB args d)) \<and>
         get (fst (answerQuestion toNumber askKB args d)) ''context'' = Some (JStr (kb_context (askKB (question args) (resolve_lang (language args))))) \<and>
         get (fst (answerQuestion toNumber askKB args d)) ''sources'' = Some (JArr (best # rest))"
    if "businessConfigs d = c # cs" "kbMinConfidence c = Some th" "th \<le> s"
    using that gate_reached [where askKB = askKB and args = args and d = d and th = "th" and toNumber = toNumber, OF first score]
    by (simp add: configured_row minConfidence_of_def)
  have null_th: "gated (fst (answerQuestion toNumber askKB args d)) \<and> \<not> approved (fst (answerQuestion toNumber askKB args d))"
    if "businessConfigs d = c # cs" "kbMinConfidence c = None" "s < 55 / 100"
    using that gate_below [where askKB = askKB and args = args and d = d and th = "55 / 100" and a = "lowConfidenceAction_of (Some c)" and toNumber = toNumber, OF first score]
    by (simp add: configured_row minConfidence_of_def)
  have null_th_ok: "approved (fst (answerQuestion toNumber askKB args d))"
    if "businessConfigs d = c # cs" "kbMinConfidence c = None" "55 / 100 \<le> s"
    using that gate_reached [where askKB = askKB and args = args and d = d and th = "55 / 100" and toNumber = toNumber, OF first score]
    by (simp add: configured_row minConfidence_of_def)
  have null_action: "gated (fst (answerQuestion toNumber askKB args d)) \<and> get (fst (answerQuestion toNumber askKB args d)) ''action'' = Some (JStr ''CLARIFY'')"
    if "businessConfigs d = c # cs" "kbMinConfidence c = Some th" "lowConfidenceAction c = None" "s < th"
    using that gate_below [where askKB = askKB and args = args and d = d and th = "th" and a = "''ask_clarify''" and toNumber = toNumber, OF first score]
    by (simp add: configured_row minConfidence_of_def lowConfidenceAction_of_def)
  have none: "gated (fst (answerQuestion toNumber askKB args d)) \<and> \<not> approved (fst (answerQuestion toNumber askKB args d)) \<and> get (fst (answerQuestion toNumber askKB args d)) ''action'' = Some (JStr ''CLARIFY'')"
    if "businessConfigs d = []" "s < 55 / 100"
    using that gate_below [where askKB = askKB and args = args and d = d and th = "55 / 100" and a = "''ask_clarify''" and toNumber = toNumber, OF first score]
    by (simp add: no_row minConfidence_of_def lowConfidenceAction_of_def)
  have none_ok: "approved (fst (answerQuestion toNumber askKB args d)) \<and>
         get (fst (answerQuestion toNumber askKB args d)) ''context'' = Some (JStr (kb_context (askKB (question args) (resolve_lang (language args))))) \<and>
         get (fst (answerQuestion toNumber askKB args d)) ''sources'' = Some (JArr (best # rest))"
    if "businessConfigs d = []" "55 / 100 \<le> s"
    using that gate_reached [where askKB = askKB and args = args and d = d and th = "55 / 100" and toNumber = toNumber, OF first score]
    by (simp add: no_row minConfidence_of_def)
  have 1: "businessConfigs d = c # cs \<and> kbMinConfidence c = Some th \<and> lowConfidenceAction c = Some a \<longrightarrow>
            (s < th \<longrightarrow>
               gated (fst (answerQuestion toNumber askKB args d)) \<and>
               \<not> approved (fst (answerQuestion toNumber askKB args d)) \<and>
               get (fst (answerQuestion toNumber askKB args d)) ''action'' \<in> {Some (JStr ''CLARIFY''), Some (JStr ''TRANSFER''), Some (JStr ''VOICEMAIL'')} \<and>
               (a = ''transfer'' \<longrightarrow> get (fst (answerQuestion toNumber askKB args d)) ''action'' = Some (JStr ''TRANSFER'')) \<and>
               (a = ''voicemail'' \<longrightarrow> get (fst (answerQuestion toNumber askKB args d)) ''action'' = Some (JStr ''VOICEMAIL'')) \<and>
               (a = ''ask_clarify'' \<longrightarrow> get (fst (answerQuestion toNumber askKB args d)) ''action'' = Some (JStr ''CLARIFY'')) \<and>
               (a \<noteq> ''transfer'' \<and> a \<noteq> ''voicemail'' \<longrightarrow> get (fst (answerQuestion toNumber askKB args d)) ''action'' = Some (JStr ''CLARIFY''))) \<and>
            (th \<le> s \<longrightarrow>
               approved (fst (answerQuestion toNumber askKB args d)) \<and>
               get (fst (answerQuestion toNumber askKB args d)) ''context'' = Some (JStr (kb_context (askKB (question args) (resolve_lang (language args))))) \<and>
               get (fst (answerQuestion toNumber askKB args d)) ''sources'' = Some (JArr (best # rest)))"
    using row row_ok by auto
  have 2: "businessConfigs d = c # cs \<and> kbMinConfidence c = None \<longrightarrow>
            (s < 55 / 100 \<longrightarrow> gated (fst (answerQuestion toNumber askKB args d)) \<and> \<not> approved (fst (answerQuestion toNumber askKB args d))) \<and>
            (55 / 100 \<le> s \<longrightarrow> approved (fst (answerQuestion toNumber askKB args d)))"
    using null_th null_th_ok by blast
  have 3: "businessConfigs d = c # cs \<and> kbMinConfidence c = Some th \<and> lowConfidenceAction c = None \<and> s < th \<longrightarrow>
            gated (fst (answerQuestion toNumber askKB args d)) \<and> get (fst (answerQuestion toNumber askKB args d)) ''action'' = Some (JStr ''CLARIFY'')"
    using null_action by blast
  have 4: "businessConfigs d = [] \<longrightarrow>
            (s < 55 / 100 \<longrightarrow>
               gated (fst (answerQuestion toNumber askKB args d)) \<and> \<not> approved (fst (answerQuestion toNumber askKB args d)) \<and> get (fst (answerQuestion toNumber askKB args d)) ''action'' = Some (JStr ''CLARIFY'')) \<and>
            (55 / 100 \<le> s \<longrightarrow>
               approved (fst (answerQuestion toNumber askKB args d)) \<and>
               get (fst (answerQuestion toNumber askKB args d)) ''context'' = Some (JStr (kb_context (askKB (question args) (resolve_lang (language args))))) \<and>
               get (fst (answerQuestion toNumber askKB args d)) ''sources'' = Some (JArr (best # rest)))"
    using none none_ok by blast
  from 1 2 3 4 show ?thesis by blast
qed

lemma kb_strong_top:
  "kb_sources (kb_strong (question next_event_question) (resolve_lang (language next_event_question)))
     = JObj [(''id'', JStr ''faq-1''), (''score'', JNum (91 / 100))] # []"
  by (simp add: kb_strong_def)

lemma kb_weak_top:
  "kb_sources (kb_weak (question next_event_question) (resolve_lang (language next_event_question)))
     = JObj [(''id'', JStr ''faq-7''), (''score'', JNum (10 / 100))] # []"
  by (simp add: kb_weak_def)

lemma score_strong: "get (JObj [(''id'', JStr ''faq-1''), (''score'', JNum (91 / 100))]) ''score'' = Some (JNum (91 / 100))"
  by simp

lemma score_weak: "get (JObj [(''id'', JStr ''faq-7''), (''score'', JNum (10 / 100))]) ''score'' = Some (JNum (10 / 100))"
  by simp

lemma default_threshold: "minConfidence_of (findFirst_businessConfig empty_db) = 55 / 100"
  by (simp add: minConfidence_of_def findFirst_businessConfig_def empty_db_def)

lemma no_config: "businessConfigs empty_db = []"
  by (simp add: empty_db_def)

lemma strict_row:
  "businessConfigs strict_db
     = \<lparr> kbMinConfidence = Some (95 / 100), lowConfidenceAction = Some ''transfer'' \<rparr> # []"
  by (simp add: strict_db_def empty_db_def)

lemma lenient_row:
  "businessConfigs lenient_db
     = \<lparr> kbMinConfidence = Some (5 / 100), lowConfidenceAction = Some ''voicemail'' \<rparr> # []"
  by (simp add: lenient_db_def empty_db_def)

text \<open>
  A top score of 0.91 is transferred under the row that asks for 0.95 and answered with
  its passage and source under the default policy; a top score of 0.10 is answered under
  the row that asks for 0.05 and asked to clarify under the default policy.
\<close>

theorem answerQuestion_confidence_gate_witness:
  "gated (fst (answerQuestion no_number kb_strong next_event_question strict_db)) \<and>
   get (fst (answerQuestion no_number kb_strong next_event_question strict_db)) ''action''
     = Some (JStr ''TRANSFER'') \<and>
   approved (fst (answerQuestion no_number kb_weak next_event_question lenient_db)) \<and>
   get (fst (answerQuestion no_number kb_weak next_event_question lenient_db)) ''context''
     = Some (JStr ''Soup is served warm.'') \<and>
   approved (fst (answerQuestion no_number kb_strong next_event_question empty_db)) \<and>
   get (fst (answerQuestion no_number kb_strong next_event_question empty_db)) ''context''
     = Some (JStr ''The next event is in Harrisburg.'') \<and>
   get (fst (answerQuestion no_number kb_strong next_event_question empty_db)) ''sources''
     = Some (JArr [JObj [(''id'', JStr ''faq-1''), (''score'', JNum (91 / 100))]]) \<and>
   gated (fst (answerQuestion no_number kb_weak next_event_question empty_db)) \<and>
   get (fst (answerQuestion no_number kb_weak next_event_question empty_db)) ''action'' = Some (JStr ''CLARIFY'')"
  using answerQuestion_confidence_gate [where askKB = kb_strong and args = next_event_question
          and d = strict_db and toNumber = no_number and cs = "[]" and th = "95 / 100" and a = "''transfer''"
          and c = "\<lparr> kbMinConfidence = Some (95 / 100), lowConfidenceAction = Some ''transfer'' \<rparr>",
          OF kb_strong_top score_strong]
        answerQuestion_confidence_gate [where askKB = kb_weak and args = next_event_question
          and d = lenient_db and toNumber = no_number and cs = "[]" and th = "5 / 100" and a = "''voicemail''"
          and c = "\<lparr> kbMinConfidence = Some (5 / 100), lowConfidenceAction = Some ''voicemail'' \<rparr>",
          OF kb_weak_top score_weak]
        answerQuestion_confidence_gate [where askKB = kb_strong and args = next_event_question
          and d = empty_db and toNumber = no_number, OF kb_strong_top score_strong]
        answerQuestion_confidence_gate [where askKB = kb_weak and args = next_event_question
          and d = empty_db and toNumber = no_number, OF kb_weak_top score_weak]
  by (simp add: no_config strict_row lenient_row kb_strong_def kb_weak_def)

text \<open>
  A score that is a string is not replaced by 0: it is converted, and approved when the
  converted value reaches the threshold.
\<close>

lemma string_score_is_converted:
  "kb_sources (askKB (question args) (resolve_lang (language args))) = best # rest \<Longrightarrow>
   get best ''score'' = Some (JStr t) \<Longrightarrow> toNumber (JStr t) = Some x \<Longrightarrow>
   minConfidence_of (findFirst_businessConfig d) \<le> x \<Longrightarrow>
   approved (fst (answerQuestion toNumber askKB args d))"
  using answerQuestion_high [of toNumber askKB args d]
  by (simp add: topConfidence_of_def below_def)

text \<open>
  Claim C10. When retrieval returns no candidate, the top confidence is 0; under any
  positive threshold, and under the default 0.55 that applies when no configuration row
  exists, the result is gated (\<open>ok: false\<close> with an action) and is not
  confidence-approved.
\<close>

theorem answerQuestion_no_candidates:
  assumes none: "kb_sources (askKB (question args) (resolve_lang (language args))) = []"
      and positive: "0 < minConfidence_of (findFirst_businessConfig d) \<or> businessConfigs d = []"
  shows "topConfidence_of (askKB (question args) (resolve_lang (language args))) = JNum 0 \<and>
         (businessConfigs d = [] \<longrightarrow> minConfidence_of (findFirst_businessConfig d) = 55 / 100) \<and>
         get (fst (answerQuestion toNumber askKB args d)) ''ok'' = Some (JBool False) \<and>
         get (fst (answerQuestion toNumber askKB args d)) ''action''
           \<in> {Some (JStr ''CLARIFY''), Some (JStr ''TRANSFER''), Some (JStr ''VOICEMAIL'')} \<and>
         gated (fst (answerQuestion toNumber askKB args d)) \<and>
         \<not> approved (fst (answerQuestion toNumber askKB args d))"
proof -
  have tc: "topConfidence_of (askKB (question args) (resolve_lang (language args))) = JNum 0"
    by (simp add: topConfidence_of_def none)
  have dflt: "businessConfigs d = [] \<Longrightarrow> minConfidence_of (findFirst_businessConfig d) = 55 / 100"
    by (simp add: findFirst_businessConfig_def minConfidence_of_def)
  from positive dflt have "0 < minConfidence_of (findFirst_businessConfig d)" by auto
  with tc have "below toNumber (topConfidence_of (askKB (question args) (resolve_lang (language args))))
      (minConfidence_of (findFirst_businessConfig d))" by simp
  with answerQuestion_low [of toNumber askKB args d] tc dflt show ?thesis by (auto simp: gated_def)
qed

lemma kb_empty_none:
  "kb_sources (kb_empty (question next_event_question) (resolve_lang (language next_event_question))) = []"
  by (simp add: kb_empty_def)

lemma empty_db_no_config: "0 < minConfidence_of (findFirst_businessConfig empty_db) \<or> businessConfigs empty_db = []"
  by (simp add: default_threshold)

text \<open>No candidate and no configuration row: the caller is asked to clarify.\<close>

theorem answerQuestion_no_candidates_witness:
  "kb_sources (kb_empty (question next_event_question) (resolve_lang (language next_event_question))) = [] \<and>
   businessConfigs empty_db = [] \<and>
   get (fst (answerQuestion no_number kb_empty next_event_question empty_db)) ''ok'' = Some (JBool False) \<and>
   get (fst (answerQuestion no_number kb_empty next_event_question empty_db)) ''action'' = Some (JStr ''CLARIFY'') \<and>
   \<not> approved (fst (answerQuestion no_number kb_empty next_event_question empty_db))"
  using answerQuestion_no_candidates [where askKB = kb_empty and args = next_event_question
          and d = empty_db and toNumber = no_number, OF kb_empty_none empty_db_no_config]
        answerQuestion_low [of no_number kb_empty next_event_question empty_db] no_config
  by (simp add: kb_empty_def topConfidence_of_def default_threshold
      findFirst_businessConfig_def lowConfidenceAction_of_def)

section \<open>Properties of tool dispatch\<close>

text \<open>
  Claim C4. \<open>toString\<close> is not a property of the registry's own, yet the lookup
  \<open>tools[name]\<close> finds the function the object literal inherits: whatever the registered
  tools are and whatever the arguments, dispatch returns the text \<open>[object Undefined]\<close>
  and not the \<open>Unknown tool: toString\<close> error object.
\<close>

theorem inherited_name_is_not_unknown:
  "''toString'' \<notin> set tool_names \<and>
   handleToolCall te impl ''toString'' args w = (Inr (JStr ''[object Undefined]''), w) \<and>
   fst (handleToolCall te impl ''toString'' args w) \<noteq> Inr (unknown_tool ''toString'')"
  by (simp add: handleToolCall_def tool_names_def Object_prototype_names_def call_inherited_def
      unknown_tool_def)

text \<open>
  Away from the inherited names the guard does what it is there for, and a registered tool
  that throws a value other than \<open>null\<close> or \<open>undefined\<close> yields an error object.
\<close>

lemma handleToolCall_unknown:
  "name \<notin> set tool_names \<Longrightarrow> name \<notin> set Object_prototype_names \<Longrightarrow>
   handleToolCall te impl name args w = (Inr (unknown_tool name), w)"
  by (simp add: handleToolCall_def unknown_tool_def)

lemma handleToolCall_throwing_tool:
  "name \<in> set tool_names \<Longrightarrow> impl name args w = (Inl (Throw m str), w') \<Longrightarrow>
   handleToolCall te impl name args w =
     (Inr (JObj [(''error'', JStr (case m of None \<Rightarrow> ''Tool execution failed''
                                   | Some t \<Rightarrow> message_or t ''Tool execution failed''))]), w')"
  by (simp add: handleToolCall_def caught_def)

section \<open>Properties of the model session client\<close>

lemma send_not_open: "ws c \<noteq> Some OPEN \<Longrightarrow> send obj c = c"
  by (cases "ws c") (auto simp: send_def)

lemma send_open: "ws c = Some OPEN \<Longrightarrow> send obj c = c\<lparr>wire := wire c @ [obj]\<rparr>"
  by (simp add: send_def)

lemma ws_close_not_OPEN: "ws_close s \<noteq> OPEN"
  by (cases s) simp_all

lemma ws_after_close: "ws (close c) \<noteq> Some OPEN"
  by (cases "ws c") (auto simp: close_def stopHeartbeat_def Let_def ws_close_not_OPEN)

lemma close_idem: "close (close c) = close c"
proof -
  have "ws_close (ws_close s) = ws_close s" for s by (cases s) simp_all
  then have "map_option ws_close (map_option ws_close (ws c)) = map_option ws_close (ws c)"
    by (cases "ws c") simp_all
  then show ?thesis by (simp add: close_def stopHeartbeat_def Let_def)
qed

text \<open>
  Claim C9. A \<open>send\<close> on a client whose socket is absent or not open changes nothing
  and raises nothing. After \<open>close\<close> the socket is not open, the client is not connected
  and its keepalive timer is stopped, and a second \<open>close\<close> changes nothing. So when a
  tool invocation settles after the client was closed, its \<open>tool.output\<close> reply is dropped:
  the client stays as \<open>close\<close> left it and nothing is added to what was written to the
  socket.
\<close>

theorem late_tool_result_discarded:
  "(ws c = None \<or> ws c \<noteq> Some OPEN \<longrightarrow> send obj c = c) \<and>
   ws (close c) \<noteq> Some OPEN \<and>
   \<not> connected (close c) \<and>
   \<not> heartbeatTimer (close c) \<and>
   close (close c) = close c \<and>
   send obj (close c) = close c \<and>
   client_handleToolCall parse stringify onToolCall call (close c) = close c \<and>
   wire (client_handleToolCall parse stringify onToolCall call (close c)) = wire c"
proof -
  have "\<not> connected (close c)" "\<not> heartbeatTimer (close c)" "wire (close c) = wire c"
    by (simp_all add: close_def stopHeartbeat_def Let_def)
  moreover have "client_handleToolCall parse stringify onToolCall call (close c) = close c"
    by (simp add: client_handleToolCall_def Let_def send_not_open [OF ws_after_close])
  ultimately show ?thesis
    using send_not_open [of c obj] send_not_open [OF ws_after_close, of obj c] ws_after_close [of c]
      close_idem [of c]
    by auto
qed

text \<open>
  A client that never had a socket, and a client closed while a tool call was outstanding.
\<close>

theorem late_tool_result_discarded_witness:
  "ws bare_client = None \<and>
   send commit_msg bare_client = bare_client \<and>
   ws (close open_client) = Some CLOSING \<and>
   wire (client_handleToolCall no_parse no_text (Some failing_handler) pricing_call (close open_client)) = []"
  using late_tool_result_discarded [of bare_client commit_msg no_parse no_text "Some failing_handler" pricing_call]
    late_tool_result_discarded [of open_client commit_msg no_parse no_text "Some failing_handler" pricing_call]
  by (simp add: bare_client_def open_client_def close_def stopHeartbeat_def)








text \<open>
  Claim C5, as the code has it. A string argument payload is parsed, and becomes the
  empty object when it is empty or does not parse. When the handler throws, the output is
  \<open>{ok: false, error}\<close> with the thrown value's message (or its text). The reply is a
  \<open>tool.output\<close> message that carries the serialised output and the correlation token
  \<open>tool_call_id\<close>, or \<open>id\<close> when that is missing; with the socket open exactly this one
  message is written to it, and with the socket not open, as after \<open>close\<close>, nothing is
  written.
\<close>

theorem tool_call_reply:
  "(arguments call = Some (JStr s) \<longrightarrow>
      call_args parse call = (if s = [] then JObj [] else case parse s of None \<Rightarrow> JObj [] | Some v \<Rightarrow> v)) \<and>
   (arguments call = Some (JStr s) \<and> parse s = None \<longrightarrow> call_args parse call = JObj []) \<and>
   (onToolCall = Some h \<and> h (call\<lparr>arguments := Some (call_args parse call)\<rparr>) = Inl e \<longrightarrow>
      tool_output parse onToolCall call = JObj [(''ok'', JBool False), (''error'', JStr (error_text e))]) \<and>
   (ws c = Some OPEN \<longrightarrow>
      wire (client_handleToolCall parse stringify onToolCall call c)
        = wire c @ [tool_output_msg stringify (or_else (tool_call_id call) (call_id call))
                      (tool_output parse onToolCall call)]) \<and>
   (ws c \<noteq> Some OPEN \<longrightarrow> client_handleToolCall parse stringify onToolCall call c = c) \<and>
   (tool_call_id call = Some t \<and> t \<noteq> [] \<longrightarrow> or_else (tool_call_id call) (call_id call) = Some t) \<and>
   (\<not> given (tool_call_id call) \<longrightarrow> or_else (tool_call_id call) (call_id call) = call_id call) \<and>
   get (tool_output_msg stringify tok out) ''type'' = Some (JStr ''tool.output'') \<and>
   get (tool_output_msg stringify (Some t) out) ''tool_call_id'' = Some (JStr t) \<and>
   get (tool_output_msg stringify tok out) ''output'' = Some (JStr (stringify out))"
proof -
  have a: "arguments call = Some (JStr s) \<Longrightarrow>
      call_args parse call = (if s = [] then JObj [] else case parse s of None \<Rightarrow> JObj [] | Some v \<Rightarrow> v)"
    by (simp add: call_args_def safeParseJson_def)
  have b: "onToolCall = Some h \<Longrightarrow> h (call\<lparr>arguments := Some (call_args parse call)\<rparr>) = Inl e \<Longrightarrow>
      tool_output parse onToolCall call = JObj [(''ok'', JBool False), (''error'', JStr (error_text e))]"
    by (simp add: tool_output_def)
  have c: "ws c = Some OPEN \<Longrightarrow>
      wire (client_handleToolCall parse stringify onToolCall call c)
        = wire c @ [tool_output_msg stringify (or_else (tool_call_id call) (call_id call))
                      (tool_output parse onToolCall call)]"
    by (simp add: client_handleToolCall_def send_def Let_def)
  have d: "ws c \<noteq> Some OPEN \<Longrightarrow> client_handleToolCall parse stringify onToolCall call c = c"
    by (simp add: client_handleToolCall_def Let_def send_not_open)
  have e: "tool_call_id call = Some t \<Longrightarrow> t \<noteq> [] \<Longrightarrow> or_else (tool_call_id call) (call_id call) = Some t"
    "\<not> given (tool_call_id call) \<Longrightarrow> or_else (tool_call_id call) (call_id call) = call_id call"
    by (simp_all add: or_else_def)
  have f: "get (tool_output_msg stringify tok out) ''type'' = Some (JStr ''tool.output'')"
    "get (tool_output_msg stringify (Some t) out) ''tool_call_id'' = Some (JStr t)"
    "get (tool_output_msg stringify tok out) ''output'' = Some (JStr (stringify out))"
    by (cases tok; simp add: tool_output_msg_def)+
  show ?thesis using a b c d e f by (simp split: if_splits)
qed

lemma pricing_call_args: "arguments pricing_call = Some (JStr ''{not json'')"
  by (simp add: pricing_call_def)

text \<open>
  A call with a malformed payload and a throwing handler, on an open socket and on a
  client that was closed while the call was outstanding.
\<close>

theorem tool_call_reply_witness:
  "call_args no_parse pricing_call = JObj [] \<and>
   tool_output no_parse (Some failing_handler) pricing_call
     = JObj [(''ok'', JBool False), (''error'', JStr ''database unavailable'')] \<and>
   wire (client_handleToolCall no_parse no_text (Some failing_handler) pricing_call open_client)
     = [JObj [(''type'', JStr ''tool.output''), (''tool_call_id'', JStr ''call_42''),
              (''output'', JStr (no_text (JObj [(''ok'', JBool False), (''error'', JStr ''database unavailable'')])))]] \<and>
   client_handleToolCall no_parse no_text (Some failing_handler) pricing_call (close open_client)
     = close open_client"
  using tool_call_reply [of pricing_call "''{not json''" no_parse "Some failing_handler" failing_handler
      "Throw (Some ''database unavailable'') ''Error: database unavailable''" open_client no_text
      "''call_42''" None JNull]
    tool_call_reply [of pricing_call "''{not json''" no_parse "Some failing_handler" failing_handler
      "Throw (Some ''database unavailable'') ''Error: database unavailable''" "close open_client" no_text
      "''call_42''" None JNull]
  by (simp add: pricing_call_args no_parse_def failing_handler_def error_text_def message_or_def
      open_client_def close_def stopHeartbeat_def tool_output_msg_def pricing_call_def)

text \<open>
  Claim C5, as the spec words it, fails: the call arrives on the open socket, the client
  is closed while the handler runs, and when the handler has settled no \<open>tool.output\<close>
  message is written: the socket is closing and what was written to it is unchanged.
\<close>

theorem tool_output_not_sent_counterexample:
  "ws open_client = Some OPEN \<and>
   ws (close open_client) = Some CLOSING \<and>
   wire (client_handleToolCall no_parse no_text (Some failing_handler) pricing_call (close open_client))
     = wire open_client \<and>
   wire (client_handleToolCall no_parse no_text (Some failing_handler) pricing_call (close open_client)) = []"
  by (simp add: client_handleToolCall_def send_def open_client_def close_def stopHeartbeat_def Let_def)

section \<open>Properties of the detached notifications\<close>

lemma purchaseTickets_ignores_notifications:
  "fst (purchaseTickets (w\<lparr>sendTicketConfirmation := sms, notifyTicketPurchase := slack\<rparr>) args d)
     = fst (purchaseTickets w args d) \<and>
   fst (snd (purchaseTickets (w\<lparr>sendTicketConfirmation := sms, notifyTicketPurchase := slack\<rparr>) args d))
     = fst (snd (purchaseTickets w args d))"
  by (simp add: purchaseTickets_def Let_def split: option.splits prod.splits)

text \<open>
  Claim C6. The result of \<open>purchaseTickets\<close> and the database it leaves are the same
  whatever the SMS confirmation and the Slack notification settle to; in particular a
  purchase that returns \<open>ok: true\<close> still does when both sends reject. The result of
  \<open>captureSponsorInquiry\<close> is its success object for every behaviour of its two sends.
  The sends are not awaited: all that their outcome reaches is the console.
\<close>

theorem notifications_fire_and_forget:
  "fst (purchaseTickets (w\<lparr>sendTicketConfirmation := sms, notifyTicketPurchase := slack\<rparr>) args d)
     = fst (purchaseTickets w args d) \<and>
   fst (snd (purchaseTickets (w\<lparr>sendTicketConfirmation := sms, notifyTicketPurchase := slack\<rparr>) args d))
     = fst (snd (purchaseTickets w args d)) \<and>
   (get (fst (purchaseTickets w args d)) ''ok'' = Some (JBool True) \<longrightarrow>
      get (fst (purchaseTickets (w\<lparr>sendTicketConfirmation := (\<lambda>r. Rejected why_sms),
                                   notifyTicketPurchase := (\<lambda>r. Rejected why_slack)\<rparr>) args d)) ''ok''
        = Some (JBool True)) \<and>
   fst (captureSponsorInquiry w inquiry d) = sponsor_ok \<and>
   get (fst (captureSponsorInquiry w inquiry d)) ''ok'' = Some (JBool True)"
proof -
  have "fst (captureSponsorInquiry w inquiry d) = sponsor_ok"
    by (simp add: captureSponsorInquiry_def Let_def)
  moreover have "get sponsor_ok ''ok'' = Some (JBool True)"
    by (simp add: sponsor_ok_def)
  ultimately show ?thesis
    using purchaseTickets_ignores_notifications [where w = w and sms = sms and slack = slack
        and args = args and d = d]
      purchaseTickets_ignores_notifications [where w = w and sms = "\<lambda>r. Rejected why_sms"
        and slack = "\<lambda>r. Rejected why_slack" and args = args and d = d]
    by simp
qed


lemma calm_purchase_ok:
  "get (fst (purchaseTickets calm_env one_GA_ticket roomy_db)) ''ok'' = Some (JBool True)"
  by (simp add: purchaseTickets_def processVoicePayment_def findUnique_event_def roomy_db_def
      empty_db_def soldout_event_def calm_env_def one_GA_ticket_def charged_def logIntent_def
      Let_def purchase_ok_def)

text \<open>
  The same purchase with both notifications resolving and with both rejecting.
\<close>

theorem notifications_fire_and_forget_witness:
  "get (fst (purchaseTickets calm_env one_GA_ticket roomy_db)) ''ok'' = Some (JBool True) \<and>
   get (fst (purchaseTickets stormy_env one_GA_ticket roomy_db)) ''ok'' = Some (JBool True) \<and>
   fst (captureSponsorInquiry stormy_env acme_inquiry roomy_db) = sponsor_ok"
  using notifications_fire_and_forget [where w = calm_env and args = one_GA_ticket and d = roomy_db
      and why_sms = "''Twilio is down''" and why_slack = "''Slack is down''" and inquiry = acme_inquiry]
    notifications_fire_and_forget [where w = stormy_env and args = one_GA_ticket and d = roomy_db
      and inquiry = acme_inquiry]
    calm_purchase_ok
  by (simp add: stormy_env_def)

section \<open>Properties of the event lookup\<close>

lemma findMany_events_logIntent [simp]:
  "findMany_events now eventName (logIntent i m d) = findMany_events now eventName d"
  by (simp add: findMany_events_def logIntent_def)






end
